theory Spec2Isabelle
  imports Complex_Main
begin

section \<open>Overlays: \<^verbatim>\<open>looker/src/overlays/base.ts\<close>\<close>

text \<open>
  JavaScript numbers that hold coordinates, scales and sizes are modelled as \<^typ>\<open>real\<close>
  (exact arithmetic, no rounding, no NaN); counters and indices (\<open>rotate\<close>, \<open>seed\<close>,
  \<open>frameNumber\<close>) as \<^typ>\<open>int\<close> or \<^typ>\<open>nat\<close>. An optional property is an \<open>option\<close>,
  and a truthiness test of the source is written out at each place it occurs.
\<close>

type_synonym Coordinates = "real \<times> real"
type_synonym Dimensions = "real \<times> real"
type_synonym BoundingBox = "real \<times> real \<times> real \<times> real"

text \<open>A thrown JavaScript exception, with its message.\<close>

datatype error = Error string

text \<open>\<open>NONFINITE\<close> is declared in \<^verbatim>\<open>../state\<close>; only its name is used here.\<close>

typedecl NONFINITE

text \<open>\<open>enum CONTAINS { NONE = 0, CONTENT = 1, BORDER = 2 }\<close>\<close>

datatype CONTAINS = NONE | CONTENT | BORDER

text \<open>\<open>interface RegularLabel extends BaseLabel\<close>\<close>

record RegularLabel =
  id' :: string
  cls :: string
  frame_number :: "nat option"
  tags :: "string list"
  index :: "nat option"
  label :: "string option"
  confidence :: "(real + NONFINITE) option"

text \<open>
  What a call \<open>filter[field](label)\<close> may return. A predicate returns a boolean; the other
  values are those that members every object inherits return: a string, \<open>undefined\<close>, the
  label it was given, or the object it was called on.
\<close>

datatype Value =
  Boolean bool
| String string
| UndefinedValue
| LabelObject RegularLabel
| ThisObject

text \<open>A predicate is foreign code and may throw, so its result is \<open>error + Value\<close>.\<close>

type_synonym Predicate = "RegularLabel \<Rightarrow> error + Value"

text \<open>
  \<open>state.options.filter\<close> is a JavaScript object keyed by field. Its own properties are the
  predicates put there; a property lookup that finds no own property goes on to the
  object's prototype chain, so the object also carries the members it inherits, each as
  what calling it on a label does (calling a member that is not a function throws).
\<close>

record FilterObject =
  own :: "string \<rightharpoonup> Predicate"
  inherited :: "string \<rightharpoonup> Predicate"

text \<open>\<open>object[key]\<close>, when the value found is truthy.\<close>

definition getProperty :: "FilterObject \<Rightarrow> string \<Rightarrow> Predicate option" where
  "getProperty object k = (case own object k of Some p \<Rightarrow> Some p | None \<Rightarrow> inherited object k)"

text \<open>
  The parts of \<open>BaseState\<close> (\<^verbatim>\<open>../state\<close>) that the two source files read or write.
\<close>

record Coloring =
  pool :: "string list"
  seed :: int
  byLabel :: bool

record Options =
  activePaths :: "string list option"
  filter' :: "FilterObject option"
  coloring :: Coloring
  selectedLabels :: "string list"
  onlyShowHoveredLabel :: bool
  showLabel :: bool
  showConfidence :: bool
  showTooltip :: bool

record Config =
  thumbnail :: bool
  dimensions :: Dimensions

text \<open>
  \<open>playing\<close> and \<open>frameNumber\<close> exist on video states only (the source reads them under
  \<open>@ts-ignore\<close>), hence the \<open>option\<close>.
\<close>

record State =
  pan :: Coordinates
  scale :: real
  windowBBox :: BoundingBox
  cursorCoordinates :: Coordinates
  panning :: bool
  hovering :: bool
  wheeling :: bool
  showControls :: bool
  showOptions :: bool
  canZoom :: bool
  fullscreen :: bool
  disableControls :: bool
  hoveringControls :: bool
  loaded :: bool
  playing :: "bool option"
  frameNumber :: "nat option"
  rotate' :: int
  config :: Config
  options :: Options

text \<open>\<open>interface SelectData\<close> and \<open>interface PointInfo\<close>\<close>

record SelectData =
  id' :: string
  field :: string
  frameNumber :: "nat option"

record PointInfo =
  color :: string
  field :: string
  label :: RegularLabel
  point :: "Coordinates option"
  target :: "real option"
  type :: string

text \<open>
  \<open>isShown\<close>: two guarded returns and a default. An array is truthy even when empty, so
  \<open>activePaths\<close> is tested for presence only; \<open>filter[field]\<close> is a property lookup, own
  properties first and inherited members after. What is found is called with no \<open>try\<close>
  around it: what it returns, \<open>isShown\<close> returns, and what it throws, \<open>isShown\<close> throws.
\<close>

definition isShown :: "State \<Rightarrow> string \<Rightarrow> RegularLabel \<Rightarrow> error + Value" where
  "isShown s fld lbl =
    (if (case activePaths (options s) of
           None \<Rightarrow> False
         | Some paths \<Rightarrow> fld \<notin> set paths)
     then Inr (Boolean False)
     else (case filter' (options s) of
             None \<Rightarrow> Inr (Boolean True)
           | Some object \<Rightarrow>
               (case getProperty object fld of
                  None \<Rightarrow> Inr (Boolean True)
                | Some pred \<Rightarrow> pred lbl)))"

text \<open>
  \<open>abstract class CoordinateOverlay\<close>: the fields of an instance. \<open>color\<close> is
  \<open>undefined\<close> until \<open>getColor\<close> assigns it.
\<close>

record CoordinateOverlay =
  field :: string
  label :: RegularLabel
  color :: "string option"

text \<open>\<open>constructor(field, label)\<close> assigns the two and leaves \<open>color\<close> alone.\<close>

definition CoordinateOverlay_constructor :: "string \<Rightarrow> RegularLabel \<Rightarrow> CoordinateOverlay" where
  "CoordinateOverlay_constructor fld lbl =
     \<lparr> CoordinateOverlay.field = fld, CoordinateOverlay.label = lbl,
       CoordinateOverlay.color = None \<rparr>"

definition CoordinateOverlay_isShown :: "CoordinateOverlay \<Rightarrow> State \<Rightarrow> error + Value" where
  "CoordinateOverlay_isShown this s =
     isShown s (CoordinateOverlay.field this) (CoordinateOverlay.label this)"

definition isSelected :: "CoordinateOverlay \<Rightarrow> State \<Rightarrow> bool" where
  "isSelected this s =
     (RegularLabel.id' (CoordinateOverlay.label this) \<in> set (selectedLabels (options s)))"

text \<open>
  \<open>CoordinateOverlay.getColor\<close>. The imported \<open>getColor(pool, seed, key)\<close> of
  \<^verbatim>\<open>../color\<close> is the parameter \<open>getColor\<close>; the key is \<open>this.label.label\<close> (which may be
  absent) or \<open>this.field\<close>. \<open>!this.color\<close> holds when the field is \<open>undefined\<close> or the
  empty string. The result is the returned string, the instance afterwards, and the
  assignments made to \<open>this.color\<close> during the call.
\<close>

datatype Write = WriteColor string

definition CoordinateOverlay_getColor ::
  "(string list \<Rightarrow> int \<Rightarrow> string option \<Rightarrow> string) \<Rightarrow> CoordinateOverlay \<Rightarrow> State
     \<Rightarrow> string \<times> CoordinateOverlay \<times> Write list" where
  "CoordinateOverlay_getColor getColor this s =
    (let key = (if byLabel (coloring (options s))
                then RegularLabel.label (CoordinateOverlay.label this)
                else Some (CoordinateOverlay.field this));
         c = getColor (pool (coloring (options s))) (seed (coloring (options s))) key;
         assigned = (c, this\<lparr>CoordinateOverlay.color := Some c\<rparr>, [WriteColor c])
     in (case CoordinateOverlay.color this of
           None \<Rightarrow> assigned
         | Some cached \<Rightarrow> if cached = [] then assigned else (cached, this, [])))"

text \<open>Successive calls on one instance, each with its own state.\<close>

fun getColor_calls ::
  "(string list \<Rightarrow> int \<Rightarrow> string option \<Rightarrow> string) \<Rightarrow> CoordinateOverlay \<Rightarrow> State list
     \<Rightarrow> string list \<times> CoordinateOverlay \<times> Write list" where
  "getColor_calls getColor this [] = ([], this, [])"
| "getColor_calls getColor this (s # ss) =
     (case CoordinateOverlay_getColor getColor this s of
        (c, this', ws) \<Rightarrow>
          (case getColor_calls getColor this' ss of
             (cs, this'', ws') \<Rightarrow> (c # cs, this'', ws @ ws')))"

definition CoordinateOverlay_getSelectData :: "CoordinateOverlay \<Rightarrow> State \<Rightarrow> SelectData" where
  "CoordinateOverlay_getSelectData this s =
     \<lparr> SelectData.id' = RegularLabel.id' (CoordinateOverlay.label this),
       SelectData.field = CoordinateOverlay.field this,
       SelectData.frameNumber = State.frameNumber s \<rparr>"


section \<open>Viewer elements: \<^verbatim>\<open>looker/src/elements/common.ts\<close>\<close>

text \<open>
  \<open>interface Overlay\<close>: the three methods the elements call. They are abstract in the
  source, so an overlay carries them as functions of the state.
\<close>

record Overlay =
  containsPoint :: "State \<Rightarrow> CONTAINS"
  getPointInfo :: "State \<Rightarrow> PointInfo"
  getSelectData :: "State \<Rightarrow> SelectData"

text \<open>
  The payload of a \<open>tooltip\<close> event: \<open>{ ...detail, coordinates }\<close>, where \<open>detail\<close> is a
  \<open>PointInfo\<close> that may have received a \<open>frameNumber\<close> property.
\<close>

record TooltipDetail = PointInfo +
  frameNumber :: "nat option"
  coordinates :: Coordinates

text \<open>
  A patch is an object literal with some of the state's keys, in order; the keys of a
  nested \<open>options\<close> object are patched one by one.
\<close>

datatype OptionsUpdate =
  OnlyShowHoveredLabel bool
| ShowLabel bool
| ShowConfidence bool
| ShowTooltip bool

datatype Update =
  Pan Coordinates
| Scale real
| CursorCoordinates Coordinates
| Panning bool
| Hovering bool
| Wheeling bool
| ShowControls bool
| ShowOptions bool
| CanZoom bool
| Fullscreen bool
| DisableControls bool
| HoveringControls bool
| Rotate int
| OptionsPatch "OptionsUpdate list"

type_synonym Patch = "Update list"

text \<open>What a handler does besides patching the state.\<close>

datatype Timeout = Timeout nat

datatype Payload =
  Undefined
| Null
| Tooltip TooltipDetail
| Select SelectData
| OptionsDetail "OptionsUpdate list"

datatype Effect =
  DispatchEvent string Payload
| PreventDefault
| StopPropagation
| SetTimeout Timeout nat
| ClearTimeout Timeout

text \<open>The properties of a DOM event that the handlers read; \<open>event.x\<close> is \<open>clientX\<close>.\<close>

record Event =
  key :: string
  pageX :: real
  pageY :: real
  clientX :: real
  clientY :: real
  deltaY :: real

text \<open>
  The viewer as the handlers see it: the committed state, the private fields of
  \<open>LookerElement\<close> (\<open>start\<close>, \<open>hideControlsTimeout\<close>, \<open>wheelTimeout\<close>), the number of
  timers handed out so far, and the effects performed so far, oldest first.
\<close>

record Looker =
  state :: State
  start :: Coordinates
  hideControlsTimeout :: "Timeout option"
  wheelTimeout :: "Timeout option"
  timers :: nat
  effects :: "Effect list"

definition perform :: "Effect \<Rightarrow> Looker \<Rightarrow> Looker" where
  "perform e this = this\<lparr>effects := effects this @ [e]\<rparr>"

definition dispatchEvent :: "string \<Rightarrow> Payload \<Rightarrow> Looker \<Rightarrow> Looker" where
  "dispatchEvent name detail = perform (DispatchEvent name detail)"

definition preventDefault :: "Looker \<Rightarrow> Looker" where
  "preventDefault = perform PreventDefault"

definition stopPropagation :: "Looker \<Rightarrow> Looker" where
  "stopPropagation = perform StopPropagation"

definition setTimeout :: "nat \<Rightarrow> Looker \<Rightarrow> Timeout \<times> Looker" where
  "setTimeout delay this =
     (let t = Timeout (Suc (timers this))
      in (t, perform (SetTimeout t delay) (this\<lparr>timers := Suc (timers this)\<rparr>)))"

definition clearTimeout :: "Timeout \<Rightarrow> Looker \<Rightarrow> Looker" where
  "clearTimeout t = perform (ClearTimeout t)"

text \<open>
  Modelled from the spec: the Update/Dispatch Engine (the \<open>update\<close> function that every
  handler receives, and the merge of a patch into the state), which is not among the
  source files. Section 4.3: it accepts a patch, literal or a function of the previous
  state, and an optional callback; it commits the patch once, and then calls the callback
  with the new state and the current overlay list; an empty patch still triggers the
  callback. The overlay list is whatever the engine holds for the committed state, the
  parameter \<open>overlays\<close>. A patch function runs before the commit, and the source's patch
  functions also assign fields and perform effects, so here it maps the previous state
  and the viewer to the patch and the viewer.
\<close>

fun mergeOptions :: "OptionsUpdate \<Rightarrow> Options \<Rightarrow> Options" where
  "mergeOptions (OnlyShowHoveredLabel b) opts = opts\<lparr>onlyShowHoveredLabel := b\<rparr>"
| "mergeOptions (ShowLabel b) opts = opts\<lparr>showLabel := b\<rparr>"
| "mergeOptions (ShowConfidence b) opts = opts\<lparr>showConfidence := b\<rparr>"
| "mergeOptions (ShowTooltip b) opts = opts\<lparr>showTooltip := b\<rparr>"

fun mergeUpdate :: "Update \<Rightarrow> State \<Rightarrow> State" where
  "mergeUpdate (Pan v) s = s\<lparr>pan := v\<rparr>"
| "mergeUpdate (Scale v) s = s\<lparr>scale := v\<rparr>"
| "mergeUpdate (CursorCoordinates v) s = s\<lparr>cursorCoordinates := v\<rparr>"
| "mergeUpdate (Panning v) s = s\<lparr>panning := v\<rparr>"
| "mergeUpdate (Hovering v) s = s\<lparr>hovering := v\<rparr>"
| "mergeUpdate (Wheeling v) s = s\<lparr>wheeling := v\<rparr>"
| "mergeUpdate (ShowControls v) s = s\<lparr>showControls := v\<rparr>"
| "mergeUpdate (ShowOptions v) s = s\<lparr>showOptions := v\<rparr>"
| "mergeUpdate (CanZoom v) s = s\<lparr>canZoom := v\<rparr>"
| "mergeUpdate (Fullscreen v) s = s\<lparr>fullscreen := v\<rparr>"
| "mergeUpdate (DisableControls v) s = s\<lparr>disableControls := v\<rparr>"
| "mergeUpdate (HoveringControls v) s = s\<lparr>hoveringControls := v\<rparr>"
| "mergeUpdate (Rotate v) s = s\<lparr>rotate' := v\<rparr>"
| "mergeUpdate (OptionsPatch us) s = s\<lparr>options := fold mergeOptions us (options s)\<rparr>"

definition mergeUpdates :: "State \<Rightarrow> Patch \<Rightarrow> State" where
  "mergeUpdates s patch = fold mergeUpdate patch s"

definition update ::
  "(State \<Rightarrow> Overlay list) \<Rightarrow> (State \<Rightarrow> Looker \<Rightarrow> Patch \<times> Looker)
     \<Rightarrow> (State \<Rightarrow> Overlay list \<Rightarrow> Looker \<Rightarrow> Looker) option \<Rightarrow> Looker \<Rightarrow> Looker" where
  "update overlays updater postUpdate this =
     (case updater (state this) this of
        (patch, this') \<Rightarrow>
          (let s = mergeUpdates (state this') patch;
               committed = this'\<lparr>state := s\<rparr>
           in (case postUpdate of
                 None \<Rightarrow> committed
               | Some callback \<Rightarrow> callback s (overlays s) committed)))"

text \<open>\<open>update({ ... })\<close> with an object literal.\<close>

definition literal :: "Patch \<Rightarrow> State \<Rightarrow> Looker \<Rightarrow> Patch \<times> Looker" where
  "literal patch s this = (patch, this)"

text \<open>
  \<open>dispatchTooltipEvent\<close>. \<open>state.playing\<close> is truthy when present and true;
  \<open>overlays.length && overlays[0].containsPoint(state)\<close> is truthy when the list is not
  empty and the first overlay's answer is not \<open>NONE\<close> (which is 0);
  \<open>state.frameNumber\<close> is truthy when present and not 0; \<open>detail\<close>, an object, is truthy
  when not \<open>null\<close>.
\<close>

definition dispatchTooltipEvent :: "State \<Rightarrow> Overlay list \<Rightarrow> Looker \<Rightarrow> Looker" where
  "dispatchTooltipEvent s ovs this =
    (if playing s = Some True \<and> thumbnail (config s) then this
     else if \<not> showTooltip (options s) then this
     else
       (let detail = (case ovs of
                        [] \<Rightarrow> None
                      | ov # _ \<Rightarrow>
                          if containsPoint ov s \<noteq> NONE then Some (getPointInfo ov s, None)
                          else None);
            detail = (case (State.frameNumber s, detail) of
                        (Some n, Some (info, _)) \<Rightarrow>
                          if n \<noteq> 0 then Some (info, Some n) else detail
                      | _ \<Rightarrow> detail)
        in dispatchEvent ''tooltip''
             (case detail of
                Some (info, fn) \<Rightarrow>
                  Tooltip (PointInfo.extend info (TooltipDetail.fields fn (cursorCoordinates s)))
              | None \<Rightarrow> Null)
             this))"

subsection \<open>\<open>LookerElement\<close>\<close>

definition LookerElement_keydown :: "(State \<Rightarrow> Overlay list) \<Rightarrow> Event \<Rightarrow> Looker \<Rightarrow> Looker" where
  "LookerElement_keydown overlays event this =
    (if key event = ''ArrowDown'' then
       update overlays (\<lambda>s this. ([Rotate (rotate' s + 1)], this)) (Some dispatchTooltipEvent) this
     else if key event = ''ArrowUp'' then
       update overlays (\<lambda>s this. ([Rotate (max (rotate' s - 1) 0)], this))
         (Some dispatchTooltipEvent) this
     else if key event = ''Escape'' then
       update overlays (literal [ShowControls False, ShowOptions False]) None this
     else if key event = ''s'' then
       update overlays
         (\<lambda>s this. ([ShowOptions (showOptions s), ShowControls (showControls s)], this)) None this
     else this)"

definition LookerElement_mouseenter :: "(State \<Rightarrow> Overlay list) \<Rightarrow> Event \<Rightarrow> Looker \<Rightarrow> Looker" where
  "LookerElement_mouseenter overlays event this =
     update overlays
       (\<lambda>s this. if thumbnail (config s) then ([Hovering True], this)
                  else ([Hovering True, ShowControls True], this))
       None (dispatchEvent ''mouseenter'' Undefined this)"

definition LookerElement_mouseleave :: "(State \<Rightarrow> Overlay list) \<Rightarrow> Event \<Rightarrow> Looker \<Rightarrow> Looker" where
  "LookerElement_mouseleave overlays event this =
     update overlays (literal [Hovering False, DisableControls False, Panning False])
       None (dispatchEvent ''mouseleave'' Undefined this)"

definition LookerElement_mousedown :: "(State \<Rightarrow> Overlay list) \<Rightarrow> Event \<Rightarrow> Looker \<Rightarrow> Looker" where
  "LookerElement_mousedown overlays event =
     update overlays
       (\<lambda>s this.
          (case pan s of
             (x, y) \<Rightarrow>
               if thumbnail (config s) then ([], this)
               else ([Panning True, CanZoom False],
                     (preventDefault this)\<lparr>start := (pageX event - x, pageY event - y)\<rparr>)))
       None"

definition getPan :: "Looker \<Rightarrow> Coordinates \<Rightarrow> Coordinates" where
  "getPan this p =
     (case p of (x, y) \<Rightarrow> (case start this of (sx, sy) \<Rightarrow> (x - sx, y - sy)))"

definition LookerElement_mouseup :: "(State \<Rightarrow> Overlay list) \<Rightarrow> Event \<Rightarrow> Looker \<Rightarrow> Looker" where
  "LookerElement_mouseup overlays event =
     update overlays
       (\<lambda>s this.
          if thumbnail (config s) \<or> \<not> panning s then ([], this)
          else ([Panning False, Pan (getPan this (pageX event, pageY event))],
                preventDefault this))
       None"

text \<open>
  The callback of the 2500 ms timer that \<open>mousemove\<close> starts, run when the timer fires.
\<close>

definition hideControlsTimeout_fired :: "(State \<Rightarrow> Overlay list) \<Rightarrow> Looker \<Rightarrow> Looker" where
  "hideControlsTimeout_fired overlays =
     update overlays
       (\<lambda>s this.
          (if \<not> showOptions s then [ShowControls False] else [],
           this\<lparr>hideControlsTimeout := None\<rparr>))
       None"

definition LookerElement_mousemove :: "(State \<Rightarrow> Overlay list) \<Rightarrow> Event \<Rightarrow> Looker \<Rightarrow> Looker" where
  "LookerElement_mousemove overlays event this =
    (let this1 = (case hideControlsTimeout this of
                    Some t \<Rightarrow> clearTimeout t this
                  | None \<Rightarrow> this)
     in (case setTimeout 2500 this1 of
           (t, this2) \<Rightarrow>
             update overlays
               (\<lambda>s this.
                  if thumbnail (config s) \<or> \<not> panning s
                  then (if rotate' s \<noteq> 0 then [Rotate 0] else [], this)
                  else ([Rotate 0, Pan (getPan this (pageX event, pageY event))], this))
               None (this2\<lparr>hideControlsTimeout := Some t\<rparr>)))"

definition LookerElement_dblclick :: "(State \<Rightarrow> Overlay list) \<Rightarrow> Event \<Rightarrow> Looker \<Rightarrow> Looker" where
  "LookerElement_dblclick overlays event =
     update overlays
       (\<lambda>s this. (if thumbnail (config s) then [] else [Scale 1, Pan (0, 0), CanZoom True], this))
       None"

text \<open>The callback of the 200 ms timer that \<open>wheel\<close> starts, run when the timer fires.\<close>

definition wheelTimeout_fired :: "(State \<Rightarrow> Overlay list) \<Rightarrow> Looker \<Rightarrow> Looker" where
  "wheelTimeout_fired overlays this =
     update overlays (literal [Wheeling False]) None (this\<lparr>wheelTimeout := None\<rparr>)"

text \<open>
  \<open>wheel\<close>. The imported \<open>clampScale\<close> of \<^verbatim>\<open>../util\<close> is the parameter \<open>clampScale\<close>.
\<close>

definition LookerElement_wheel ::
  "(Dimensions \<Rightarrow> Dimensions \<Rightarrow> real \<Rightarrow> real) \<Rightarrow> (State \<Rightarrow> Overlay list) \<Rightarrow> Event
     \<Rightarrow> Looker \<Rightarrow> Looker" where
  "LookerElement_wheel clampScale overlays event =
     update overlays
       (\<lambda>s this.
          (case (pan s, windowBBox s) of
             ((px, py), (tlx, tly, width, height)) \<Rightarrow>
               if thumbnail (config s) then ([], this)
               else
                 (let this1 = preventDefault this;
                      x = clientX event - tlx;
                      y = clientY event - tly;
                      xs = (x - px) / scale s;
                      ys = (y - py) / scale s;
                      newScale = clampScale (width, height) (dimensions (config s))
                                   (if deltaY event < 0 then scale s * 1.15 else scale s / 1.15)
                  in if scale s = newScale then ([], this1)
                     else
                       (let this2 = (case wheelTimeout this1 of
                                       Some t \<Rightarrow> clearTimeout t this1
                                     | None \<Rightarrow> this1)
                        in (case setTimeout 200 this2 of
                              (t, this3) \<Rightarrow>
                                ([Pan (x - xs * newScale, y - ys * newScale),
                                  Scale newScale,
                                  CanZoom False,
                                  CursorCoordinates (pageX event, pageY event),
                                  Wheeling True],
                                 this3\<lparr>wheelTimeout := Some t\<rparr>))))))
       (Some dispatchTooltipEvent)"

type_synonym Handler = "Event \<Rightarrow> Looker \<Rightarrow> Looker"

text \<open>\<open>getEvents\<close> returns the handlers keyed by event name.\<close>

definition LookerElement_getEvents ::
  "(Dimensions \<Rightarrow> Dimensions \<Rightarrow> real \<Rightarrow> real) \<Rightarrow> (State \<Rightarrow> Overlay list)
     \<Rightarrow> (string \<times> Handler) list" where
  "LookerElement_getEvents clampScale overlays =
     [(''keydown'', LookerElement_keydown overlays),
      (''mouseenter'', LookerElement_mouseenter overlays),
      (''mouseleave'', LookerElement_mouseleave overlays),
      (''mousedown'', LookerElement_mousedown overlays),
      (''mouseup'', LookerElement_mouseup overlays),
      (''mousemove'', LookerElement_mousemove overlays),
      (''dblclick'', LookerElement_dblclick overlays),
      (''wheel'', LookerElement_wheel clampScale overlays)]"

subsection \<open>\<open>CanvasElement\<close>\<close>

definition CanvasElement_click :: "(State \<Rightarrow> Overlay list) \<Rightarrow> Event \<Rightarrow> Looker \<Rightarrow> Looker" where
  "CanvasElement_click overlays event =
     update overlays (literal [ShowOptions False])
       (Some (\<lambda>s ovs this.
          (case ovs of
             [] \<Rightarrow> this
           | ov # _ \<Rightarrow>
               if \<not> thumbnail (config s)
               then dispatchEvent ''select'' (Select (getSelectData ov s)) this
               else this)))"

definition CanvasElement_mouseleave :: "Event \<Rightarrow> Looker \<Rightarrow> Looker" where
  "CanvasElement_mouseleave event = dispatchEvent ''tooltip'' Null"

definition CanvasElement_mousemove :: "(State \<Rightarrow> Overlay list) \<Rightarrow> Event \<Rightarrow> Looker \<Rightarrow> Looker" where
  "CanvasElement_mousemove overlays event =
     update overlays
       (\<lambda>s this.
          (if thumbnail (config s) then []
           else [CursorCoordinates (pageX event, pageY event)], this))
       (Some dispatchTooltipEvent)"

definition CanvasElement_getEvents :: "(State \<Rightarrow> Overlay list) \<Rightarrow> (string \<times> Handler) list" where
  "CanvasElement_getEvents overlays =
     [(''click'', CanvasElement_click overlays),
      (''mouseleave'', CanvasElement_mouseleave),
      (''mousemove'', CanvasElement_mousemove overlays)]"

subsection \<open>\<open>ControlsElement\<close>\<close>

definition ControlsElement_click :: "(State \<Rightarrow> Overlay list) \<Rightarrow> Event \<Rightarrow> Looker \<Rightarrow> Looker" where
  "ControlsElement_click overlays event this =
     update overlays
       (literal [ShowControls False, DisableControls True, ShowOptions False])
       None (stopPropagation this)"

definition hoverControls :: "bool \<Rightarrow> (State \<Rightarrow> Overlay list) \<Rightarrow> Event \<Rightarrow> Looker \<Rightarrow> Looker" where
  "hoverControls b overlays event = update overlays (literal [HoveringControls b]) None"

text \<open>\<open>event.preventDefault(); event.stopPropagation();\<close>\<close>

definition swallow :: "Event \<Rightarrow> Looker \<Rightarrow> Looker" where
  "swallow event this = stopPropagation (preventDefault this)"

definition ControlsElement_getEvents :: "(State \<Rightarrow> Overlay list) \<Rightarrow> (string \<times> Handler) list" where
  "ControlsElement_getEvents overlays =
     [(''click'', ControlsElement_click overlays),
      (''mouseenter'', hoverControls True overlays),
      (''mouseleave'', hoverControls False overlays),
      (''wheel'', swallow),
      (''dblclick'', swallow),
      (''mousedown'', swallow),
      (''mouseup'', swallow)]"

subsection \<open>The buttons\<close>

definition FullscreenButtonElement_click ::
  "(State \<Rightarrow> Overlay list) \<Rightarrow> Event \<Rightarrow> Looker \<Rightarrow> Looker" where
  "FullscreenButtonElement_click overlays event this =
     update overlays (\<lambda>s this. ([Fullscreen (\<not> fullscreen s)], this)) None
       (stopPropagation this)"

text \<open>\<open>PlusElement\<close> and \<open>MinusElement\<close>: the call of \<open>update\<close> is commented out.\<close>

definition PlusElement_click :: "Event \<Rightarrow> Looker \<Rightarrow> Looker" where
  "PlusElement_click event = stopPropagation"

definition MinusElement_click :: "Event \<Rightarrow> Looker \<Rightarrow> Looker" where
  "MinusElement_click event = stopPropagation"

definition OptionsButtonElement_click ::
  "(State \<Rightarrow> Overlay list) \<Rightarrow> Event \<Rightarrow> Looker \<Rightarrow> Looker" where
  "OptionsButtonElement_click overlays event this =
     update overlays (\<lambda>s this. ([ShowOptions (\<not> showOptions s)], this)) None
       (stopPropagation this)"

text \<open>\<open>element.title\<close> as \<open>OptionsButtonElement.createHTMLElement\<close> sets it.\<close>

definition OptionsButtonElement_title :: string where
  "OptionsButtonElement_title = ''Settings (s)''"

subsection \<open>\<open>OptionsPanelElement\<close> and the option rows\<close>

text \<open>\<open>event.stopPropagation(); event.preventDefault();\<close>\<close>

definition stopAndPrevent :: "Looker \<Rightarrow> Looker" where
  "stopAndPrevent this = preventDefault (stopPropagation this)"

definition OptionsPanelElement_getEvents ::
  "(State \<Rightarrow> Overlay list) \<Rightarrow> (string \<times> Handler) list" where
  "OptionsPanelElement_getEvents overlays =
     [(''click'', \<lambda>event. stopAndPrevent),
      (''dblclick'', \<lambda>event. stopAndPrevent),
      (''mouseenter'', hoverControls True overlays),
      (''mouseleave'', hoverControls False overlays)]"

definition OnlyShowHoveredOnLabelOptionElement_click ::
  "(State \<Rightarrow> Overlay list) \<Rightarrow> Event \<Rightarrow> Looker \<Rightarrow> Looker" where
  "OnlyShowHoveredOnLabelOptionElement_click overlays event this =
     update overlays
       (\<lambda>s this.
          ([OptionsPatch [OnlyShowHoveredLabel (\<not> onlyShowHoveredLabel (options s))]], this))
       None (stopAndPrevent this)"

definition ShowLabelOptionElement_click ::
  "(State \<Rightarrow> Overlay list) \<Rightarrow> Event \<Rightarrow> Looker \<Rightarrow> Looker" where
  "ShowLabelOptionElement_click overlays event this =
     update overlays
       (\<lambda>s this.
          ([OptionsPatch [ShowLabel (\<not> showLabel (options s))]],
           dispatchEvent ''options'' (OptionsDetail [ShowLabel (\<not> showLabel (options s))]) this))
       None (stopAndPrevent this)"

definition ShowConfidenceOptionElement_click ::
  "(State \<Rightarrow> Overlay list) \<Rightarrow> Event \<Rightarrow> Looker \<Rightarrow> Looker" where
  "ShowConfidenceOptionElement_click overlays event this =
     update overlays
       (\<lambda>s this.
          ([OptionsPatch [ShowConfidence (\<not> showConfidence (options s))]],
           dispatchEvent ''options''
             (OptionsDetail [ShowConfidence (\<not> showConfidence (options s))]) this))
       None (stopAndPrevent this)"

definition ShowTooltipOptionElement_click ::
  "(State \<Rightarrow> Overlay list) \<Rightarrow> Event \<Rightarrow> Looker \<Rightarrow> Looker" where
  "ShowTooltipOptionElement_click overlays event this =
     update overlays
       (\<lambda>s this.
          ([OptionsPatch [ShowTooltip (\<not> showTooltip (options s))]],
           dispatchEvent ''options'' (OptionsDetail [ShowTooltip (\<not> showTooltip (options s))]) this))
       None (stopAndPrevent this)"

subsection \<open>The viewer's inputs\<close>

text \<open>
  The classes of the file, and what can reach the viewer: a DOM event on one of the
  elements, by name, or the firing of one of the two timers. An event with no handler in
  the element's table does nothing.
\<close>

datatype Element =
  LookerElement
| CanvasElement
| ControlsElement
| FullscreenButtonElement
| PlusElement
| MinusElement
| OptionsButtonElement
| OptionsPanelElement
| OnlyShowHoveredOnLabelOptionElement
| ShowLabelOptionElement
| ShowConfidenceOptionElement
| ShowTooltipOptionElement

fun getEvents ::
  "(Dimensions \<Rightarrow> Dimensions \<Rightarrow> real \<Rightarrow> real) \<Rightarrow> (State \<Rightarrow> Overlay list) \<Rightarrow> Element
     \<Rightarrow> (string \<times> Handler) list" where
  "getEvents clampScale overlays LookerElement = LookerElement_getEvents clampScale overlays"
| "getEvents clampScale overlays CanvasElement = CanvasElement_getEvents overlays"
| "getEvents clampScale overlays ControlsElement = ControlsElement_getEvents overlays"
| "getEvents clampScale overlays FullscreenButtonElement =
     [(''click'', FullscreenButtonElement_click overlays)]"
| "getEvents clampScale overlays PlusElement = [(''click'', PlusElement_click)]"
| "getEvents clampScale overlays MinusElement = [(''click'', MinusElement_click)]"
| "getEvents clampScale overlays OptionsButtonElement =
     [(''click'', OptionsButtonElement_click overlays)]"
| "getEvents clampScale overlays OptionsPanelElement = OptionsPanelElement_getEvents overlays"
| "getEvents clampScale overlays OnlyShowHoveredOnLabelOptionElement =
     [(''click'', OnlyShowHoveredOnLabelOptionElement_click overlays)]"
| "getEvents clampScale overlays ShowLabelOptionElement =
     [(''click'', ShowLabelOptionElement_click overlays)]"
| "getEvents clampScale overlays ShowConfidenceOptionElement =
     [(''click'', ShowConfidenceOptionElement_click overlays)]"
| "getEvents clampScale overlays ShowTooltipOptionElement =
     [(''click'', ShowTooltipOptionElement_click overlays)]"

datatype Input =
  Dom Element string Event
| HideControlsTimeoutFired
| WheelTimeoutFired

fun handle ::
  "(Dimensions \<Rightarrow> Dimensions \<Rightarrow> real \<Rightarrow> real) \<Rightarrow> (State \<Rightarrow> Overlay list) \<Rightarrow> Input
     \<Rightarrow> Looker \<Rightarrow> Looker" where
  "handle clampScale overlays (Dom element name event) this =
     (case map_of (getEvents clampScale overlays element) name of
        Some handler \<Rightarrow> handler event this
      | None \<Rightarrow> this)"
| "handle clampScale overlays HideControlsTimeoutFired this =
     hideControlsTimeout_fired overlays this"
| "handle clampScale overlays WheelTimeoutFired this = wheelTimeout_fired overlays this"

text \<open>A sequence of inputs, handled in order.\<close>

fun handleAll ::
  "(Dimensions \<Rightarrow> Dimensions \<Rightarrow> real \<Rightarrow> real) \<Rightarrow> (State \<Rightarrow> Overlay list) \<Rightarrow> Input list
     \<Rightarrow> Looker \<Rightarrow> Looker" where
  "handleAll clampScale overlays [] this = this"
| "handleAll clampScale overlays (i # inputs) this =
     handleAll clampScale overlays inputs (handle clampScale overlays i this)"

section \<open>Notions the properties are stated with\<close>

text \<open>
  \<open>state.options.activePaths\<close> excludes a field when the list is there and the field
  is not in it. The per-field filter is the predicate put into \<open>state.options.filter\<close>
  under the field, an own property; \<open>fieldFilter\<close> is what the expression
  \<open>state.options.filter[field]\<close> finds, own or inherited.
\<close>

definition excludes :: "State \<Rightarrow> string \<Rightarrow> bool" where
  "excludes s fld = (case activePaths (options s) of None \<Rightarrow> False | Some paths \<Rightarrow> fld \<notin> set paths)"

definition ownFilter :: "State \<Rightarrow> string \<Rightarrow> Predicate option" where
  "ownFilter s fld = (case filter' (options s) of None \<Rightarrow> None | Some object \<Rightarrow> own object fld)"

definition fieldFilter :: "State \<Rightarrow> string \<Rightarrow> Predicate option" where
  "fieldFilter s fld =
     (case filter' (options s) of None \<Rightarrow> None | Some object \<Rightarrow> getProperty object fld)"

text \<open>
  The colour that \<open>getColor\<close> computes for an instance under a state: the imported
  function at the state's pool and seed and the instance's key.
\<close>

definition computedColor ::
  "(string list \<Rightarrow> int \<Rightarrow> string option \<Rightarrow> string) \<Rightarrow> CoordinateOverlay \<Rightarrow> State \<Rightarrow> string" where
  "computedColor getColor this s =
     getColor (pool (coloring (options s))) (seed (coloring (options s)))
       (if byLabel (coloring (options s))
        then RegularLabel.label (CoordinateOverlay.label this)
        else Some (CoordinateOverlay.field this))"

text \<open>
  The unscaled coordinate under the cursor, \<open>(cursor - pan) / scale\<close>, the cursor taken
  relative to the window box.
\<close>

definition unscaled :: "Event \<Rightarrow> State \<Rightarrow> Coordinates" where
  "unscaled event s =
     (case (pan s, windowBBox s) of
        ((px, py), (tlx, tly, width, height)) \<Rightarrow>
          ((clientX event - tlx - px) / scale s, (clientY event - tly - py) / scale s))"

text \<open>The payloads of the \<open>tooltip\<close> events among some effects, oldest first.\<close>

fun tooltips :: "Effect list \<Rightarrow> Payload list" where
  "tooltips [] = []"
| "tooltips (DispatchEvent name detail # es) =
     (if name = ''tooltip'' then detail # tooltips es else tooltips es)"
| "tooltips (e # es) = tooltips es"

text \<open>The timer operations among some effects.\<close>

fun timerEffects :: "Effect list \<Rightarrow> Effect list" where
  "timerEffects [] = []"
| "timerEffects (SetTimeout t d # es) = SetTimeout t d # timerEffects es"
| "timerEffects (ClearTimeout t # es) = ClearTimeout t # timerEffects es"
| "timerEffects (e # es) = timerEffects es"

fun isCanvasMouseleave :: "Input \<Rightarrow> bool" where
  "isCanvasMouseleave (Dom CanvasElement name event) = (name = ''mouseleave'')"
| "isCanvasMouseleave i = False"

text \<open>
  \<open>showTooltip\<close> is false in the state committed after each input of a sequence.
\<close>

fun tooltipOff ::
  "(Dimensions \<Rightarrow> Dimensions \<Rightarrow> real \<Rightarrow> real) \<Rightarrow> (State \<Rightarrow> Overlay list) \<Rightarrow> Input list
     \<Rightarrow> Looker \<Rightarrow> bool" where
  "tooltipOff clampScale overlays [] this = True"
| "tooltipOff clampScale overlays (i # inputs) this =
     (\<not> showTooltip (options (state (handle clampScale overlays i this)))
      \<and> tooltipOff clampScale overlays inputs (handle clampScale overlays i this))"

text \<open>An \<open>ArrowUp\<close> or \<open>ArrowDown\<close> key press on the viewer.\<close>

fun isArrow :: "Input \<Rightarrow> bool" where
  "isArrow (Dom LookerElement name event) =
     (name = ''keydown'' \<and> (key event = ''ArrowUp'' \<or> key event = ''ArrowDown''))"
| "isArrow i = False"

text \<open>
  The scale that \<open>wheel\<close> asks \<open>clampScale\<close> for and gets back: the current scale times
  1.15 when \<open>deltaY\<close> is negative, divided by 1.15 otherwise, clamped.
\<close>

definition newScale ::
  "(Dimensions \<Rightarrow> Dimensions \<Rightarrow> real \<Rightarrow> real) \<Rightarrow> Event \<Rightarrow> State \<Rightarrow> real" where
  "newScale clampScale event s =
     (case windowBBox s of
        (tlx, tly, width, height) \<Rightarrow>
          clampScale (width, height) (dimensions (config s))
            (if deltaY event < 0 then scale s * 1.15 else scale s / 1.15))"

text \<open>A drag: a pointer-down on the viewer, then any number of pointer-moves on it.\<close>

definition drag ::
  "(Dimensions \<Rightarrow> Dimensions \<Rightarrow> real \<Rightarrow> real) \<Rightarrow> (State \<Rightarrow> Overlay list) \<Rightarrow> Event \<Rightarrow> Event list
     \<Rightarrow> Looker \<Rightarrow> Looker" where
  "drag clampScale overlays down moves this =
     handleAll clampScale overlays (map (Dom LookerElement ''mousemove'') moves)
       (LookerElement_mousedown overlays down this)"

section \<open>Example inputs\<close>

text \<open>
  Concrete values at which the theorems below are instantiated: a label without label
  text, a viewer as \<open>LookerElement\<close> is constructed (\<open>start = [0, 0]\<close>, no timers) on a
  800 by 600 window, an overlay that contains every point, and three foreign functions:
  a filter predicate written \<open>(l) => l.label.length < 10\<close>, which throws on a label
  without text; a colour function that answers with the first colour of the pool, and
  with black when the pool has none; and a scale clamp to the range 1 to 10.
\<close>

definition exampleLabel :: RegularLabel where
  "exampleLabel =
     \<lparr> RegularLabel.id' = ''60a1'', cls = ''Detection'', frame_number = None, tags = [],
       index = None, RegularLabel.label = None, confidence = None \<rparr>"

definition exampleOptions :: Options where
  "exampleOptions =
     \<lparr> activePaths = None, filter' = None,
       coloring = \<lparr> pool = [''#ee0000'', ''#0000ee''], seed = 1, byLabel = False \<rparr>,
       selectedLabels = [], onlyShowHoveredLabel = False, showLabel = True,
       showConfidence = True, showTooltip = True \<rparr>"

definition exampleState :: State where
  "exampleState =
     \<lparr> pan = (0, 0), scale = 1, windowBBox = (0, 0, 800, 600), cursorCoordinates = (0, 0),
       panning = False, hovering = False, wheeling = False, showControls = False,
       showOptions = False, canZoom = True, fullscreen = False, disableControls = False,
       hoveringControls = False, loaded = True, playing = None, State.frameNumber = None,
       rotate' = 0, config = \<lparr> thumbnail = False, dimensions = (1600, 1200) \<rparr>,
       options = exampleOptions \<rparr>"

definition exampleLooker :: Looker where
  "exampleLooker =
     \<lparr> state = exampleState, start = (0, 0), hideControlsTimeout = None,
       wheelTimeout = None, timers = 0, effects = [] \<rparr>"

definition exampleEvent :: Event where
  "exampleEvent = \<lparr> key = [], pageX = 0, pageY = 0, clientX = 0, clientY = 0, deltaY = 0 \<rparr>"

definition examplePointInfo :: PointInfo where
  "examplePointInfo =
     \<lparr> PointInfo.color = ''#ee0000'', PointInfo.field = ''ground_truth'',
       PointInfo.label = exampleLabel, point = None, target = None, type = ''Detection'' \<rparr>"

definition exampleOverlay :: Overlay where
  "exampleOverlay =
     \<lparr> containsPoint = (\<lambda>s. CONTENT),
       getPointInfo = (\<lambda>s. examplePointInfo),
       getSelectData = (\<lambda>s. \<lparr> SelectData.id' = ''60a1'', SelectData.field = ''ground_truth'',
                                SelectData.frameNumber = State.frameNumber s \<rparr>) \<rparr>"

definition shortLabel :: Predicate where
  "shortLabel lbl =
     (case RegularLabel.label lbl of
        None \<Rightarrow> Inl (Error ''TypeError: label is undefined'')
      | Some text \<Rightarrow> Inr (Boolean (length text < 10)))"

definition exampleGetColor :: "string list \<Rightarrow> int \<Rightarrow> string option \<Rightarrow> string" where
  "exampleGetColor colors n k =
     (case colors of [] \<Rightarrow> ''#000000'' | c # _ \<Rightarrow> if c = [] then ''#000000'' else c)"

text \<open>
  The members of \<open>Object.prototype\<close>, each as what \<open>object.member(label)\<close> does on an
  object that has no own property named \<open>toString\<close> or \<open>[object Object]\<close> (the key a label
  converts to): \<open>hasOwnProperty\<close>, \<open>propertyIsEnumerable\<close> and \<open>isPrototypeOf\<close> answer
  false, \<open>toString\<close> and \<open>toLocaleString\<close> answer \<open>[object Object]\<close>, \<open>valueOf\<close> answers
  the object, \<open>constructor\<close> answers the label, the two lookups answer \<open>undefined\<close>, the
  two definers throw for want of a function argument, and \<open>__proto__\<close> is not a function.
  \<open>emptyObject\<close> is the object literal \<open>{}\<close>, and \<open>objectLiteral\<close> a literal with the
  given predicates.
\<close>

definition objectPrototype :: "string \<rightharpoonup> Predicate" where
  "objectPrototype =
     map_of
       [(''constructor'', \<lambda>lbl. Inr (LabelObject lbl)),
        (''__defineGetter__'', \<lambda>lbl. Inl (Error ''TypeError'')),
        (''__defineSetter__'', \<lambda>lbl. Inl (Error ''TypeError'')),
        (''hasOwnProperty'', \<lambda>lbl. Inr (Boolean False)),
        (''__lookupGetter__'', \<lambda>lbl. Inr UndefinedValue),
        (''__lookupSetter__'', \<lambda>lbl. Inr UndefinedValue),
        (''isPrototypeOf'', \<lambda>lbl. Inr (Boolean False)),
        (''propertyIsEnumerable'', \<lambda>lbl. Inr (Boolean False)),
        (''toString'', \<lambda>lbl. Inr (String ''[object Object]'')),
        (''valueOf'', \<lambda>lbl. Inr ThisObject),
        (''__proto__'', \<lambda>lbl. Inl (Error ''TypeError'')),
        (''toLocaleString'', \<lambda>lbl. Inr (String ''[object Object]''))]"

definition objectLiteral :: "(string \<rightharpoonup> Predicate) \<Rightarrow> FilterObject" where
  "objectLiteral properties = \<lparr> own = properties, inherited = objectPrototype \<rparr>"

definition emptyObject :: FilterObject where
  "emptyObject = objectLiteral Map.empty"

definition clampTo10 :: "Dimensions \<Rightarrow> Dimensions \<Rightarrow> real \<Rightarrow> real" where
  "clampTo10 window media candidate = max 1 (min 10 candidate)"

section \<open>\<open>isShown\<close>\<close>

lemma isShown_cases:
  "isShown s fld lbl =
     (if excludes s fld then Inr (Boolean False)
      else case fieldFilter s fld of None \<Rightarrow> Inr (Boolean True) | Some pred \<Rightarrow> pred lbl)"
  by (simp add: isShown_def excludes_def fieldFilter_def split: option.splits)

lemma fieldFilter_own:
  "ownFilter s fld = Some pred \<Longrightarrow> fieldFilter s fld = Some pred"
  by (auto simp add: ownFilter_def fieldFilter_def getProperty_def split: option.splits)

text \<open>
  What \<open>isShown\<close> returns, by what the lookup finds: false if \<open>activePaths\<close> excludes the
  field; otherwise the verdict of the field's own predicate if there is one, the result
  of the inherited member if the lookup finds that, and true if the lookup finds
  nothing. The method of \<open>CoordinateOverlay\<close> is \<open>isShown\<close> at the instance's field and
  label.
\<close>

lemma isShown_lookup:
  "(excludes s fld \<longrightarrow> isShown s fld lbl = Inr (Boolean False)) \<and>
   (\<not> excludes s fld \<longrightarrow>
      (\<forall>pred. ownFilter s fld = Some pred \<longrightarrow> isShown s fld lbl = pred lbl)) \<and>
   (\<not> excludes s fld \<longrightarrow>
      (\<forall>pred. fieldFilter s fld = Some pred \<longrightarrow> isShown s fld lbl = pred lbl)) \<and>
   (\<not> excludes s fld \<and> fieldFilter s fld = None \<longrightarrow> isShown s fld lbl = Inr (Boolean True)) \<and>
   CoordinateOverlay_isShown this s
     = isShown s (CoordinateOverlay.field this) (CoordinateOverlay.label this)"
  by (auto simp add: isShown_cases CoordinateOverlay_isShown_def dest: fieldFilter_own)

text \<open>
  Claim C7. \<open>isShown\<close> is to return true for a field that \<open>activePaths\<close> does not exclude
  and that has no filter predicate. The source does not for a field named like a member
  that every object inherits: with the filter object \<open>{}\<close>, which holds no predicate at
  all, and the field \<open>hasOwnProperty\<close>, the lookup \<open>filter[field]\<close> finds the inherited
  function, \<open>isShown\<close> calls it on the label and returns its answer, false.
\<close>

theorem isShown_inherited_member:
  "\<not> excludes (exampleState\<lparr>options := exampleOptions\<lparr>filter' := Some emptyObject\<rparr>\<rparr>)
       ''hasOwnProperty'' \<and>
   ownFilter (exampleState\<lparr>options := exampleOptions\<lparr>filter' := Some emptyObject\<rparr>\<rparr>)
     ''hasOwnProperty'' = None \<and>
   isShown (exampleState\<lparr>options := exampleOptions\<lparr>filter' := Some emptyObject\<rparr>\<rparr>)
     ''hasOwnProperty'' exampleLabel = Inr (Boolean False)"
  by (simp add: isShown_def excludes_def ownFilter_def getProperty_def emptyObject_def
        objectLiteral_def objectPrototype_def exampleOptions_def)

text \<open>
  Claim C4, as stated: when the filter predicate of the field raises on the label,
  \<open>isShown\<close> returns true. It does not: with the predicate \<open>shortLabel\<close> on the field and a
  label without text, the predicate raises and \<open>isShown\<close> raises the same error.
\<close>

theorem isShown_fail_open_counterexample:
  "fieldFilter (exampleState\<lparr>options := exampleOptions
        \<lparr>filter' := Some (objectLiteral [''ground_truth'' \<mapsto> shortLabel])\<rparr>\<rparr>)
     ''ground_truth'' = Some shortLabel \<and>
   shortLabel exampleLabel = Inl (Error ''TypeError: label is undefined'') \<and>
   isShown (exampleState\<lparr>options := exampleOptions
        \<lparr>filter' := Some (objectLiteral [''ground_truth'' \<mapsto> shortLabel])\<rparr>\<rparr>)
     ''ground_truth'' exampleLabel
     = Inl (Error ''TypeError: label is undefined'') \<and>
   isShown (exampleState\<lparr>options := exampleOptions
        \<lparr>filter' := Some (objectLiteral [''ground_truth'' \<mapsto> shortLabel])\<rparr>\<rparr>)
     ''ground_truth'' exampleLabel \<noteq> Inr (Boolean True)"
  by (simp add: isShown_def fieldFilter_def getProperty_def objectLiteral_def exampleState_def
        exampleOptions_def exampleLabel_def shortLabel_def)

text \<open>
  Claim C4, amended. \<open>isShown\<close> has no handler for what the predicate throws: for every
  state, field and label, if the filter predicate of the field raises on the label, then
  \<open>isShown\<close> returns false when \<open>activePaths\<close> excludes the field (the predicate is not
  called) and raises the predicate's error otherwise. In no case does it answer "shown".
\<close>

theorem isShown_propagates:
  assumes "fieldFilter s fld = Some pred" and "pred lbl = Inl e"
  shows "isShown s fld lbl = (if excludes s fld then Inr (Boolean False) else Inl e)
         \<and> isShown s fld lbl \<noteq> Inr (Boolean True)"
  using assms by (simp add: isShown_cases)

theorem isShown_propagates_witness:
  "fieldFilter (exampleState\<lparr>options := exampleOptions
        \<lparr>filter' := Some (objectLiteral [''ground_truth'' \<mapsto> shortLabel])\<rparr>\<rparr>)
     ''ground_truth'' = Some shortLabel \<and>
   shortLabel exampleLabel = Inl (Error ''TypeError: label is undefined'') \<and>
   isShown (exampleState\<lparr>options := exampleOptions
        \<lparr>filter' := Some (objectLiteral [''ground_truth'' \<mapsto> shortLabel])\<rparr>\<rparr>)
     ''ground_truth'' exampleLabel
   = Inl (Error ''TypeError: label is undefined'')"
proof -
  let ?filtered =
    "exampleState\<lparr>options := exampleOptions
        \<lparr>filter' := Some (objectLiteral [''ground_truth'' \<mapsto> shortLabel])\<rparr>\<rparr>"
  have f: "fieldFilter ?filtered ''ground_truth'' = Some shortLabel"
    by (simp add: fieldFilter_def getProperty_def objectLiteral_def)
  have r: "shortLabel exampleLabel = Inl (Error ''TypeError: label is undefined'')"
    by (simp add: shortLabel_def exampleLabel_def)
  have e: "\<not> excludes ?filtered ''ground_truth''"
    by (simp add: excludes_def exampleOptions_def)
  have "isShown ?filtered ''ground_truth'' exampleLabel
        = Inl (Error ''TypeError: label is undefined'')"
    using isShown_propagates [OF f r] e by simp
  then show ?thesis using f r by blast
qed

section \<open>\<open>CoordinateOverlay.getColor\<close>\<close>

lemma cached_getColor:
  assumes "CoordinateOverlay.color this = Some c" and "c \<noteq> []"
  shows "CoordinateOverlay_getColor getColor this s = (c, this, [])"
  using assms by (simp add: CoordinateOverlay_getColor_def Let_def)

lemma cached_getColor_calls:
  assumes "CoordinateOverlay.color this = Some c" and "c \<noteq> []"
  shows "getColor_calls getColor this ss = (replicate (length ss) c, this, [])"
  using assms by (induction ss) (simp_all add: cached_getColor)

lemma first_getColor:
  "CoordinateOverlay_getColor getColor (CoordinateOverlay_constructor fld lbl) s
     = (computedColor getColor (CoordinateOverlay_constructor fld lbl) s,
        (CoordinateOverlay_constructor fld lbl)
          \<lparr>CoordinateOverlay.color :=
             Some (computedColor getColor (CoordinateOverlay_constructor fld lbl) s)\<rparr>,
        [WriteColor (computedColor getColor (CoordinateOverlay_constructor fld lbl) s)])"
  by (simp add: CoordinateOverlay_getColor_def CoordinateOverlay_constructor_def
        computedColor_def Let_def)

text \<open>
  Claim C9. The imported colour function answers with a colour, a string that is not
  empty. Then on every overlay instance, from its construction on: the first call of
  \<open>getColor\<close> computes the colour for the state it is given and writes the cached field,
  and every later call, whatever the coloring options (pool, seed, byLabel) of its
  state, returns that same string and writes nothing, so the colour is computed once
  and the field written once.
\<close>

theorem getColor_caching:
  assumes "\<And>colors n k. getColor colors n k \<noteq> []"
  shows "getColor_calls getColor (CoordinateOverlay_constructor fld lbl) (s # ss)
         = (replicate (Suc (length ss))
              (computedColor getColor (CoordinateOverlay_constructor fld lbl) s),
            (CoordinateOverlay_constructor fld lbl)
              \<lparr>CoordinateOverlay.color :=
                 Some (computedColor getColor (CoordinateOverlay_constructor fld lbl) s)\<rparr>,
            [WriteColor (computedColor getColor (CoordinateOverlay_constructor fld lbl) s)])"
proof -
  let ?new = "CoordinateOverlay_constructor fld lbl"
  let ?c = "computedColor getColor ?new s"
  have "?c \<noteq> []"
    using assms by (simp add: computedColor_def)
  then have "getColor_calls getColor (?new\<lparr>CoordinateOverlay.color := Some ?c\<rparr>) ss
             = (replicate (length ss) ?c, ?new\<lparr>CoordinateOverlay.color := Some ?c\<rparr>, [])"
    by (intro cached_getColor_calls) simp_all
  then show ?thesis
    by (simp add: first_getColor)
qed

theorem getColor_caching_witness:
  "getColor_calls exampleGetColor (CoordinateOverlay_constructor ''ground_truth'' exampleLabel)
     [exampleState,
      exampleState\<lparr>options := exampleOptions\<lparr>coloring := \<lparr>pool = [''#00ee00''], seed = 7, byLabel = True\<rparr>\<rparr>\<rparr>,
      exampleState\<lparr>options := exampleOptions\<lparr>coloring := \<lparr>pool = [], seed = 2, byLabel = False\<rparr>\<rparr>\<rparr>]
   = ([''#ee0000'', ''#ee0000'', ''#ee0000''],
      (CoordinateOverlay_constructor ''ground_truth'' exampleLabel)
        \<lparr>CoordinateOverlay.color := Some ''#ee0000''\<rparr>,
      [WriteColor ''#ee0000''])"
proof -
  have ne: "exampleGetColor colors n k \<noteq> []" for colors n k
    by (simp add: exampleGetColor_def split: list.splits)
  have c: "computedColor exampleGetColor
             (CoordinateOverlay_constructor ''ground_truth'' exampleLabel) exampleState
           = ''#ee0000''"
    by (simp add: computedColor_def exampleGetColor_def exampleState_def exampleOptions_def)
  from getColor_caching [of exampleGetColor "''ground_truth''" exampleLabel exampleState
      "[exampleState\<lparr>options := exampleOptions\<lparr>coloring := \<lparr>pool = [''#00ee00''], seed = 7, byLabel = True\<rparr>\<rparr>\<rparr>,
        exampleState\<lparr>options := exampleOptions\<lparr>coloring := \<lparr>pool = [], seed = 2, byLabel = False\<rparr>\<rparr>\<rparr>]",
      OF ne]
  show ?thesis by (simp add: c)
qed

section \<open>The update cycle\<close>

lemmas effect_defs =
  dispatchEvent_def preventDefault_def stopPropagation_def clearTimeout_def setTimeout_def
  stopAndPrevent_def swallow_def literal_def

lemmas example_defs =
  exampleLooker_def exampleState_def exampleOptions_def exampleEvent_def exampleOverlay_def
  examplePointInfo_def exampleLabel_def clampTo10_def

lemma state_perform [simp]: "state (perform e this) = state this"
  by (simp add: perform_def)

lemma effects_perform [simp]: "effects (perform e this) = effects this @ [e]"
  by (simp add: perform_def)

lemma mergeUpdates_simps [simp]:
  "mergeUpdates s [] = s"
  "mergeUpdates s (u # us) = mergeUpdates (mergeUpdate u s) us"
  by (simp_all add: mergeUpdates_def)

lemma timerEffects_append [simp]:
  "timerEffects (es @ es') = timerEffects es @ timerEffects es'"
  by (induction es rule: timerEffects.induct) simp_all

lemma tooltips_append [simp]: "tooltips (es @ es') = tooltips es @ tooltips es'"
  by (induction es rule: tooltips.induct) simp_all

lemma state_dispatchTooltipEvent [simp]: "state (dispatchTooltipEvent s ovs this) = state this"
  by (simp add: dispatchTooltipEvent_def dispatchEvent_def Let_def)

lemma dispatchTooltipEvent_fields [simp]:
  "start (dispatchTooltipEvent s ovs this) = start this"
  "wheelTimeout (dispatchTooltipEvent s ovs this) = wheelTimeout this"
  "hideControlsTimeout (dispatchTooltipEvent s ovs this) = hideControlsTimeout this"
  "timers (dispatchTooltipEvent s ovs this) = timers this"
  "timerEffects (effects (dispatchTooltipEvent s ovs this)) = timerEffects (effects this)"
  by (simp_all add: dispatchTooltipEvent_def dispatchEvent_def perform_def Let_def)

lemma dispatchTooltipEvent_off:
  "\<not> showTooltip (options s) \<Longrightarrow> dispatchTooltipEvent s ovs this = this"
  by (simp add: dispatchTooltipEvent_def)

lemma handle_keydown:
  "handle clampScale overlays (Dom LookerElement ''keydown'' event) this
     = LookerElement_keydown overlays event this"
  by (simp add: LookerElement_getEvents_def)

lemma handle_mousemove:
  "handle clampScale overlays (Dom LookerElement ''mousemove'' event) this
     = LookerElement_mousemove overlays event this"
  by (simp add: LookerElement_getEvents_def)

section \<open>Keys\<close>

text \<open>
  Claim C10. For every state, the handler of the key \<open>s\<close> commits a patch that sets
  \<open>showOptions\<close> and \<open>showControls\<close> to the values they have: the viewer after the key
  press is the viewer before it, state and all (no callback runs, nothing is
  dispatched), although the title of the options button announces \<open>s\<close> as its key.
\<close>

theorem s_key_noop:
  assumes "key event = ''s''"
  shows "LookerElement_keydown overlays event this
           = update overlays
               (\<lambda>s this. ([ShowOptions (showOptions s), ShowControls (showControls s)], this))
               None this
         \<and> LookerElement_keydown overlays event this = this
         \<and> OptionsButtonElement_title = ''Settings (s)''"
  using assms
  by (simp add: LookerElement_keydown_def update_def OptionsButtonElement_title_def)

theorem s_key_noop_witness:
  "key (exampleEvent\<lparr>key := ''s''\<rparr>) = ''s'' \<and>
   LookerElement_keydown (\<lambda>s. [exampleOverlay]) (exampleEvent\<lparr>key := ''s''\<rparr>) exampleLooker
     = exampleLooker"
proof -
  have k: "key (exampleEvent\<lparr>key := ''s''\<rparr>) = ''s''" by simp
  from s_key_noop [OF k, of "\<lambda>s. [exampleOverlay]" exampleLooker] k show ?thesis by blast
qed

lemma keydown_ArrowDown:
  "key event = ''ArrowDown'' \<Longrightarrow>
   state (LookerElement_keydown overlays event this)
     = (state this)\<lparr>rotate' := rotate' (state this) + 1\<rparr>"
  by (simp add: LookerElement_keydown_def update_def Let_def)

lemma keydown_ArrowUp:
  "key event = ''ArrowUp'' \<Longrightarrow>
   state (LookerElement_keydown overlays event this)
     = (state this)\<lparr>rotate' := max (rotate' (state this) - 1) 0\<rparr>"
  by (simp add: LookerElement_keydown_def update_def Let_def)

lemma isArrow_rotate:
  assumes "isArrow i" and "0 \<le> rotate' (state this)"
  shows "0 \<le> rotate' (state (handle clampScale overlays i this))"
proof -
  from assms(1) obtain event where i: "i = Dom LookerElement ''keydown'' event"
    and k: "key event = ''ArrowUp'' \<or> key event = ''ArrowDown''"
    by (cases i rule: isArrow.cases) auto
  from k assms(2) show ?thesis
    unfolding i handle_keydown by (auto simp add: keydown_ArrowDown keydown_ArrowUp)
qed

lemma arrows_rotate:
  assumes "list_all isArrow inputs" and "0 \<le> rotate' (state this)"
  shows "0 \<le> rotate' (state (handleAll clampScale overlays inputs this))"
  using assms
  by (induction inputs arbitrary: this) (simp_all add: isArrow_rotate)

text \<open>
  Claim C8. The handler of \<open>ArrowDown\<close> commits \<open>rotate + 1\<close>, the handler of \<open>ArrowUp\<close>
  commits \<open>max(rotate - 1, 0)\<close>; and from a state with \<open>rotate \<ge> 0\<close>, after any number of
  inputs of any sequence of \<open>ArrowUp\<close> and \<open>ArrowDown\<close> key presses, \<open>rotate\<close> is not
  negative.
\<close>

theorem rotate_bounds:
  "(key event = ''ArrowDown'' \<longrightarrow>
      rotate' (state (LookerElement_keydown overlays event this)) = rotate' (state this) + 1) \<and>
   (key event = ''ArrowUp'' \<longrightarrow>
      rotate' (state (LookerElement_keydown overlays event this))
        = max (rotate' (state this) - 1) 0) \<and>
   (0 \<le> rotate' (state this) \<and> list_all isArrow inputs \<longrightarrow>
      (\<forall>n. 0 \<le> rotate' (state (handleAll clampScale overlays (take n inputs) this))))"
proof -
  have "list_all isArrow (take n inputs)" if "list_all isArrow inputs" for n
    using that by (auto simp add: list_all_iff dest: in_set_takeD)
  then show ?thesis
    by (auto simp add: keydown_ArrowDown keydown_ArrowUp intro: arrows_rotate)
qed

theorem rotate_bounds_witness:
  "rotate' (state (LookerElement_keydown (\<lambda>s. [exampleOverlay])
                     (exampleEvent\<lparr>key := ''ArrowDown''\<rparr>) exampleLooker)) = 1 \<and>
   rotate' (state (LookerElement_keydown (\<lambda>s. [exampleOverlay])
                     (exampleEvent\<lparr>key := ''ArrowUp''\<rparr>) exampleLooker)) = 0 \<and>
   0 \<le> rotate' (state (handleAll clampTo10 (\<lambda>s. [exampleOverlay])
                          [Dom LookerElement ''keydown'' (exampleEvent\<lparr>key := ''ArrowUp''\<rparr>),
                           Dom LookerElement ''keydown'' (exampleEvent\<lparr>key := ''ArrowUp''\<rparr>),
                           Dom LookerElement ''keydown'' (exampleEvent\<lparr>key := ''ArrowDown''\<rparr>)]
                          exampleLooker))"
proof -
  let ?up = "exampleEvent\<lparr>key := ''ArrowUp''\<rparr>"
  let ?down = "exampleEvent\<lparr>key := ''ArrowDown''\<rparr>"
  let ?inputs = "[Dom LookerElement ''keydown'' ?up, Dom LookerElement ''keydown'' ?up,
                  Dom LookerElement ''keydown'' ?down]"
  have r: "rotate' (state exampleLooker) = 0"
    by (simp add: exampleLooker_def exampleState_def)
  have a: "list_all isArrow ?inputs" by simp
  have t: "take 3 ?inputs = ?inputs" by simp
  have "rotate' (state (LookerElement_keydown (\<lambda>s. [exampleOverlay]) ?down exampleLooker)) = 1"
    using rotate_bounds [of ?down "\<lambda>s. [exampleOverlay]" exampleLooker] r by simp
  moreover
  have "rotate' (state (LookerElement_keydown (\<lambda>s. [exampleOverlay]) ?up exampleLooker)) = 0"
    using rotate_bounds [of ?up "\<lambda>s. [exampleOverlay]" exampleLooker] r by simp
  moreover
  have "\<forall>n. 0 \<le> rotate' (state (handleAll clampTo10 (\<lambda>s. [exampleOverlay])
                                     (take n ?inputs) exampleLooker))"
    using rotate_bounds [of ?up "\<lambda>s. [exampleOverlay]" exampleLooker ?inputs clampTo10] r a
    by simp
  then have "0 \<le> rotate' (state (handleAll clampTo10 (\<lambda>s. [exampleOverlay])
                                     (take 3 ?inputs) exampleLooker))" ..
  ultimately show ?thesis by (simp only: t)
qed

section \<open>Wheel\<close>

lemma wheel_unchanged:
  assumes "\<not> thumbnail (config (state this))"
    and "newScale clampScale event (state this) = scale (state this)"
  shows "LookerElement_wheel clampScale overlays event this
         = dispatchTooltipEvent (state this) (overlays (state this)) (preventDefault this)"
proof -
  obtain px py where p: "pan (state this) = (px, py)" by (cases "pan (state this)")
  obtain tlx tly width height where b: "windowBBox (state this) = (tlx, tly, width, height)"
    by (cases "windowBBox (state this)")
  from assms show ?thesis
    by (simp add: LookerElement_wheel_def update_def newScale_def p b Let_def
          preventDefault_def perform_def)
qed

lemma wheel_changed:
  assumes "\<not> thumbnail (config (state this))"
    and "newScale clampScale event (state this) \<noteq> scale (state this)"
    and "pan (state this) = (px, py)"
    and "windowBBox (state this) = (tlx, tly, width, height)"
  shows "state (LookerElement_wheel clampScale overlays event this)
         = (state this)
             \<lparr> pan := (clientX event - tlx
                        - (clientX event - tlx - px) / scale (state this)
                          * newScale clampScale event (state this),
                      clientY event - tly
                        - (clientY event - tly - py) / scale (state this)
                          * newScale clampScale event (state this)),
               scale := newScale clampScale event (state this),
               cursorCoordinates := (pageX event, pageY event),
               wheeling := True,
               canZoom := False \<rparr>"
  using assms
  by (simp add: LookerElement_wheel_def update_def newScale_def Let_def setTimeout_def
        preventDefault_def clearTimeout_def perform_def split: option.splits)

text \<open>
  Claim C3. In a non-thumbnail state, if the clamped new scale equals the current scale,
  the wheel handler leaves the state as it is (\<open>pan\<close>, \<open>scale\<close>, \<open>cursorCoordinates\<close>,
  \<open>canZoom\<close>, \<open>wheeling\<close> and every other field), leaves \<open>wheelTimeout\<close> as it is, and
  neither clears nor starts a timer: all it does is \<open>preventDefault\<close> and the tooltip
  callback on the unchanged state.
\<close>

theorem wheel_noop:
  assumes "\<not> thumbnail (config (state this))"
    and "newScale clampScale event (state this) = scale (state this)"
  shows "state (LookerElement_wheel clampScale overlays event this) = state this \<and>
         wheelTimeout (LookerElement_wheel clampScale overlays event this) = wheelTimeout this \<and>
         timers (LookerElement_wheel clampScale overlays event this) = timers this \<and>
         timerEffects (effects (LookerElement_wheel clampScale overlays event this))
           = timerEffects (effects this) \<and>
         LookerElement_wheel clampScale overlays event this
           = dispatchTooltipEvent (state this) (overlays (state this)) (preventDefault this)"
  by (simp add: wheel_unchanged [OF assms] preventDefault_def perform_def)

theorem wheel_noop_witness:
  "\<not> thumbnail (config (state exampleLooker)) \<and>
   newScale clampTo10 (exampleEvent\<lparr>deltaY := 100\<rparr>) (state exampleLooker)
     = scale (state exampleLooker) \<and>
   state (LookerElement_wheel clampTo10 (\<lambda>s. [exampleOverlay]) (exampleEvent\<lparr>deltaY := 100\<rparr>)
            exampleLooker) = exampleState \<and>
   wheelTimeout (LookerElement_wheel clampTo10 (\<lambda>s. [exampleOverlay])
                   (exampleEvent\<lparr>deltaY := 100\<rparr>) exampleLooker) = None \<and>
   timerEffects (effects (LookerElement_wheel clampTo10 (\<lambda>s. [exampleOverlay])
                            (exampleEvent\<lparr>deltaY := 100\<rparr>) exampleLooker)) = []"
proof -
  let ?ev = "exampleEvent\<lparr>deltaY := 100\<rparr>"
  let ?after = "LookerElement_wheel clampTo10 (\<lambda>s. [exampleOverlay]) ?ev exampleLooker"
  have t: "\<not> thumbnail (config (state exampleLooker))"
    by (simp add: exampleLooker_def exampleState_def)
  have n: "newScale clampTo10 ?ev (state exampleLooker) = scale (state exampleLooker)"
    by (simp add: newScale_def clampTo10_def exampleLooker_def exampleState_def)
  have v: "state exampleLooker = exampleState" "wheelTimeout exampleLooker = None"
    "timerEffects (effects exampleLooker) = []"
    by (simp_all add: exampleLooker_def)
  from wheel_noop [OF t n, of "\<lambda>s. [exampleOverlay]"]
  have "state ?after = state exampleLooker"
    and "wheelTimeout ?after = wheelTimeout exampleLooker"
    and "timerEffects (effects ?after) = timerEffects (effects exampleLooker)"
    by blast+
  with t n v show ?thesis by simp
qed

text \<open>
  The wheel handler in exact arithmetic. In a non-thumbnail state with positive scale,
  whatever the window box, the pan and the cursor position, if \<open>clampScale\<close> answers with
  a positive scale, the unscaled coordinate under the cursor, \<open>(cursor - pan) / scale\<close>,
  is the same in the committed state as in the state before. This is a fact of real
  arithmetic. The source computes in double precision, where each subtraction,
  multiplication and division rounds, and what equality or tolerance holds there is
  not decided by it.
\<close>

lemma wheel_exact_arithmetic:
  assumes "\<not> thumbnail (config (state this))"
    and "0 < scale (state this)"
    and "0 < newScale clampScale event (state this)"
  shows "unscaled event (state (LookerElement_wheel clampScale overlays event this))
         = unscaled event (state this)"
proof (cases "newScale clampScale event (state this) = scale (state this)")
  case True
  with assms(1) show ?thesis by (simp add: wheel_unchanged preventDefault_def)
next
  case False
  obtain px py where p: "pan (state this) = (px, py)" by (cases "pan (state this)")
  obtain tlx tly width height where b: "windowBBox (state this) = (tlx, tly, width, height)"
    by (cases "windowBBox (state this)")
  note st = wheel_changed [OF assms(1) False p b, of overlays]
  show ?thesis
    using assms(3) by (simp add: st unscaled_def p b)
qed

section \<open>Panning\<close>

lemma mousedown_result:
  assumes "\<not> thumbnail (config (state this))"
  shows "LookerElement_mousedown overlays event this
         = (preventDefault this)
             \<lparr> state := (state this)\<lparr>panning := True, canZoom := False\<rparr>,
               start := (pageX event - fst (pan (state this)),
                         pageY event - snd (pan (state this))) \<rparr>"
  using assms
  by (cases "pan (state this)")
     (simp add: LookerElement_mousedown_def update_def Let_def preventDefault_def perform_def)

lemma mousemove_panning:
  assumes "\<not> thumbnail (config (state this))" and "panning (state this)"
  shows "state (LookerElement_mousemove overlays event this)
           = (state this)\<lparr>rotate' := 0,
                pan := (pageX event - fst (start this), pageY event - snd (start this))\<rparr>"
    and "start (LookerElement_mousemove overlays event this) = start this"
  using assms
  by (cases "start this";
      simp add: LookerElement_mousemove_def update_def Let_def setTimeout_def
        clearTimeout_def perform_def getPan_def split: option.splits)+

lemma mouseup_panning:
  assumes "\<not> thumbnail (config (state this))" and "panning (state this)"
  shows "state (LookerElement_mouseup overlays event this)
           = (state this)\<lparr>panning := False,
                pan := (pageX event - fst (start this), pageY event - snd (start this))\<rparr>"
  using assms
  by (cases "start this")
     (simp add: LookerElement_mouseup_def update_def Let_def preventDefault_def perform_def
        getPan_def)

lemma moves_keep_anchor:
  assumes "\<not> thumbnail (config (state this))" and "panning (state this)"
  shows "\<not> thumbnail (config (state (handleAll clampScale overlays
                                        (map (Dom LookerElement ''mousemove'') moves) this))) \<and>
         panning (state (handleAll clampScale overlays
                           (map (Dom LookerElement ''mousemove'') moves) this)) \<and>
         start (handleAll clampScale overlays
                  (map (Dom LookerElement ''mousemove'') moves) this) = start this"
  using assms
proof (induction moves arbitrary: this)
  case Nil
  then show ?case by simp
next
  case (Cons m moves)
  let ?next = "LookerElement_mousemove overlays m this"
  have "\<not> thumbnail (config (state ?next))" and "panning (state ?next)"
    and "start ?next = start this"
    using Cons.prems by (simp_all add: mousemove_panning)
  with Cons.IH [of ?next] show ?case
    by (simp only: list.map handleAll.simps handle_mousemove) simp
qed

lemma drag_invariant:
  assumes "\<not> thumbnail (config (state this))"
  shows "\<not> thumbnail (config (state (drag clampScale overlays down moves this))) \<and>
         panning (state (drag clampScale overlays down moves this)) \<and>
         start (drag clampScale overlays down moves this)
           = (pageX down - fst (pan (state this)), pageY down - snd (pan (state this)))"
proof -
  let ?d = "LookerElement_mousedown overlays down this"
  have "\<not> thumbnail (config (state ?d))" and "panning (state ?d)"
    and "start ?d = (pageX down - fst (pan (state this)), pageY down - snd (pan (state this)))"
    using assms by (simp_all add: mousedown_result preventDefault_def)
  with moves_keep_anchor [of ?d clampScale overlays moves] show ?thesis
    by (simp add: drag_def)
qed

lemma drag_snoc:
  "drag clampScale overlays down (moves @ [event]) this
     = LookerElement_mousemove overlays event (drag clampScale overlays down moves this)"
proof -
  have "handleAll clampScale overlays (inputs @ [i]) w
        = handle clampScale overlays i (handleAll clampScale overlays inputs w)" for inputs i w
    by (induction inputs arbitrary: w) simp_all
  then show ?thesis
    by (simp add: drag_def handle_mousemove del: handle.simps)
qed

text \<open>
  Claim C2. Outside thumbnail mode: pointer-down stores as anchor the page position
  minus the current pan; a pointer-move or pointer-up while panning commits as pan the
  page position minus the stored anchor; so after a pointer-down and any number of
  pointer-moves, a further pointer-move or a pointer-up commits the page position minus
  the anchor captured at that pointer-down. Starting at page position (100, 100) with pan
  (0, 0), a move to (150, 120) gives pan (50, 20), and a move back to (100, 100) gives
  pan (0, 0).
\<close>

theorem pan_anchoring:
  assumes "\<not> thumbnail (config (state this))"
  shows
    "start (LookerElement_mousedown overlays down this)
       = (pageX down - fst (pan (state this)), pageY down - snd (pan (state this))) \<and>
     (panning (state this) \<longrightarrow>
        pan (state (LookerElement_mousemove overlays event this))
          = (pageX event - fst (start this), pageY event - snd (start this)) \<and>
        pan (state (LookerElement_mouseup overlays event this))
          = (pageX event - fst (start this), pageY event - snd (start this))) \<and>
     pan (state (LookerElement_mousemove overlays event
                   (drag clampScale overlays down moves this)))
       = (pageX event - (pageX down - fst (pan (state this))),
          pageY event - (pageY down - snd (pan (state this)))) \<and>
     pan (state (LookerElement_mouseup overlays event
                   (drag clampScale overlays down moves this)))
       = (pageX event - (pageX down - fst (pan (state this))),
          pageY event - (pageY down - snd (pan (state this)))) \<and>
     (pan (state this) = (0, 0) \<and> pageX down = 100 \<and> pageY down = 100 \<and>
      pageX move1 = 150 \<and> pageY move1 = 120 \<and> pageX move2 = 100 \<and> pageY move2 = 100 \<longrightarrow>
        pan (state (drag clampScale overlays down [move1] this)) = (50, 20) \<and>
        pan (state (drag clampScale overlays down [move1, move2] this)) = (0, 0))"
proof -
  note inv = drag_invariant [OF assms, of clampScale overlays down]
  have a: "start (LookerElement_mousedown overlays down this)
       = (pageX down - fst (pan (state this)), pageY down - snd (pan (state this)))"
    using inv [of "[]"] by (simp add: drag_def)
  have g: "pan (state (LookerElement_mousemove overlays event this))
          = (pageX event - fst (start this), pageY event - snd (start this)) \<and>
        pan (state (LookerElement_mouseup overlays event this))
          = (pageX event - fst (start this), pageY event - snd (start this))"
    if "panning (state this)"
    using assms that by (simp add: mousemove_panning mouseup_panning)
  have b: "pan (state (LookerElement_mousemove overlays e
                   (drag clampScale overlays down ms this)))
       = (pageX e - (pageX down - fst (pan (state this))),
          pageY e - (pageY down - snd (pan (state this))))" for e ms
    using inv [of ms] by (simp add: mousemove_panning)
  have c: "pan (state (LookerElement_mouseup overlays e
                   (drag clampScale overlays down ms this)))
       = (pageX e - (pageX down - fst (pan (state this))),
          pageY e - (pageY down - snd (pan (state this))))" for e ms
    using inv [of ms] by (simp add: mouseup_panning)
  have d: "pan (state (drag clampScale overlays down [move1] this)) = (50, 20)"
    if "pan (state this) = (0, 0)" "pageX down = 100" "pageY down = 100"
       "pageX move1 = 150" "pageY move1 = 120"
    using drag_snoc [of clampScale overlays down "[]" move1 this] b [of move1 "[]"] that
    by simp
  have e: "pan (state (drag clampScale overlays down [move1, move2] this)) = (0, 0)"
    if "pan (state this) = (0, 0)" "pageX down = 100" "pageY down = 100"
       "pageX move2 = 100" "pageY move2 = 100"
    using drag_snoc [of clampScale overlays down "[move1]" move2 this] b [of move2 "[move1]"]
      that
    by simp
  from a g b c d e show ?thesis by blast
qed

theorem pan_anchoring_witness:
  "\<not> thumbnail (config (state exampleLooker)) \<and>
   start (LookerElement_mousedown (\<lambda>s. [exampleOverlay])
            (exampleEvent\<lparr>pageX := 100, pageY := 100\<rparr>) exampleLooker) = (100, 100) \<and>
   pan (state (drag clampTo10 (\<lambda>s. [exampleOverlay])
                 (exampleEvent\<lparr>pageX := 100, pageY := 100\<rparr>)
                 [exampleEvent\<lparr>pageX := 150, pageY := 120\<rparr>] exampleLooker)) = (50, 20) \<and>
   pan (state (drag clampTo10 (\<lambda>s. [exampleOverlay])
                 (exampleEvent\<lparr>pageX := 100, pageY := 100\<rparr>)
                 [exampleEvent\<lparr>pageX := 150, pageY := 120\<rparr>,
                  exampleEvent\<lparr>pageX := 100, pageY := 100\<rparr>] exampleLooker)) = (0, 0) \<and>
   pan (state (LookerElement_mouseup (\<lambda>s. [exampleOverlay])
                 (exampleEvent\<lparr>pageX := 130, pageY := 90\<rparr>)
                 (drag clampTo10 (\<lambda>s. [exampleOverlay])
                    (exampleEvent\<lparr>pageX := 100, pageY := 100\<rparr>)
                    [exampleEvent\<lparr>pageX := 150, pageY := 120\<rparr>] exampleLooker))) = (30, - 10) \<and>
   panning (state (exampleLooker\<lparr>state := exampleState\<lparr>panning := True\<rparr>, start := (10, 10)\<rparr>)) \<and>
   pan (state (LookerElement_mousemove (\<lambda>s. [exampleOverlay])
                 (exampleEvent\<lparr>pageX := 25, pageY := 40\<rparr>)
                 (exampleLooker\<lparr>state := exampleState\<lparr>panning := True\<rparr>, start := (10, 10)\<rparr>)))
     = (15, 30)"
proof -
  let ?down = "exampleEvent\<lparr>pageX := 100, pageY := 100\<rparr>"
  let ?move1 = "exampleEvent\<lparr>pageX := 150, pageY := 120\<rparr>"
  let ?up = "exampleEvent\<lparr>pageX := 130, pageY := 90\<rparr>"
  have t: "\<not> thumbnail (config (state exampleLooker))"
    by (simp add: exampleLooker_def exampleState_def)
  have p: "pan (state exampleLooker) = (0, 0)"
    by (simp add: exampleLooker_def exampleState_def)
  let ?panning = "exampleLooker\<lparr>state := exampleState\<lparr>panning := True\<rparr>, start := (10, 10)\<rparr>"
  let ?move = "exampleEvent\<lparr>pageX := 25, pageY := 40\<rparr>"
  have t': "\<not> thumbnail (config (state ?panning))"
    by (simp add: exampleState_def)
  have q: "panning (state ?panning)" "start ?panning = (10, 10)"
    by simp_all
  have "pan (state (LookerElement_mousemove (\<lambda>s. [exampleOverlay]) ?move ?panning)) = (15, 30)"
    using pan_anchoring [OF t', of "\<lambda>s. [exampleOverlay]" ?move ?move] q by simp
  with pan_anchoring [OF t, of "\<lambda>s. [exampleOverlay]" ?down ?up clampTo10 "[?move1]" ?move1 ?down]
    t p q show ?thesis by simp
qed

section \<open>Tooltips\<close>

text \<open>
  What the tooltip resolver dispatches when it runs with \<open>showTooltip\<close> true and not in
  the playing-thumbnail case, in every state whose frame number is not 0: if the first
  overlay of the list reports containment other than \<open>NONE\<close>, the one event dispatched is
  \<open>tooltip\<close> with that overlay's \<open>PointInfo\<close> extended with the state's cursor coordinates
  and the state's frame number, if it has one; if the list is empty or its first overlay
  reports \<open>NONE\<close>, the one event dispatched is \<open>tooltip\<close> with payload \<open>null\<close>.
\<close>

lemma dispatchTooltipEvent_payload:
  assumes "showTooltip (options s)"
    and "\<not> (playing s = Some True \<and> thumbnail (config s))"
    and "State.frameNumber s \<noteq> Some 0"
  shows
    "(\<forall>ov rest. ovs = ov # rest \<and> containsPoint ov s \<noteq> NONE \<longrightarrow>
        dispatchTooltipEvent s ovs this
          = dispatchEvent ''tooltip''
              (Tooltip (PointInfo.extend (getPointInfo ov s)
                          (TooltipDetail.fields (State.frameNumber s) (cursorCoordinates s))))
              this) \<and>
     (ovs = [] \<or> (\<exists>ov rest. ovs = ov # rest \<and> containsPoint ov s = NONE) \<longrightarrow>
        dispatchTooltipEvent s ovs this = dispatchEvent ''tooltip'' Null this)"
  using assms
  by (auto simp add: dispatchTooltipEvent_def Let_def split: option.splits)

text \<open>
  Claim C6. The payload is to carry the state's frame number when the state has one.
  The source attaches it under \<open>state.frameNumber && detail\<close>, which a frame number of 0
  fails: in a state with \<open>frameNumber = 0\<close>, \<open>showTooltip\<close> true and a first overlay that
  contains the cursor, the payload dispatched has no frame number, while \<open>getSelectData\<close>
  in the same state passes the 0 on.
\<close>

theorem tooltip_frameNumber_zero:
  "showTooltip (options (exampleState\<lparr>State.frameNumber := Some 0\<rparr>)) \<and>
   containsPoint exampleOverlay (exampleState\<lparr>State.frameNumber := Some 0\<rparr>) = CONTENT \<and>
   effects (dispatchTooltipEvent (exampleState\<lparr>State.frameNumber := Some 0\<rparr>)
              [exampleOverlay] exampleLooker)
     = [DispatchEvent ''tooltip''
          (Tooltip (PointInfo.extend examplePointInfo (TooltipDetail.fields None (0, 0))))] \<and>
   effects (dispatchTooltipEvent (exampleState\<lparr>State.frameNumber := Some 0\<rparr>)
              [exampleOverlay] exampleLooker)
     \<noteq> [DispatchEvent ''tooltip''
          (Tooltip (PointInfo.extend examplePointInfo (TooltipDetail.fields (Some 0) (0, 0))))] \<and>
   SelectData.frameNumber
     (CoordinateOverlay_getSelectData (CoordinateOverlay_constructor ''ground_truth'' exampleLabel)
        (exampleState\<lparr>State.frameNumber := Some 0\<rparr>)) = Some 0"
  by (simp add: dispatchTooltipEvent_def Let_def dispatchEvent_def perform_def
        exampleState_def exampleOptions_def exampleOverlay_def exampleLooker_def
        PointInfo.defs TooltipDetail.defs examplePointInfo_def
        CoordinateOverlay_getSelectData_def)

lemma update_quiet:
  assumes off: "\<not> showTooltip (options (state (update overlays updater callback this)))"
    and cb: "callback = None \<or> callback = Some dispatchTooltipEvent"
  shows "tooltips (effects (update overlays updater callback this))
         = tooltips (effects (snd (updater (state this) this)))"
proof -
  obtain patch this' where u: "updater (state this) this = (patch, this')"
    by (cases "updater (state this) this")
  from cb show ?thesis
  proof
    assume "callback = None"
    then show ?thesis by (simp add: update_def u Let_def)
  next
    assume c: "callback = Some dispatchTooltipEvent"
    with off have "\<not> showTooltip (options (mergeUpdates (state this') patch))"
      by (simp add: update_def u Let_def)
    then show ?thesis
      by (simp add: c update_def u Let_def dispatchTooltipEvent_off)
  qed
qed


lemma LookerElement_quiet:
  assumes "(name, handler) \<in> set (LookerElement_getEvents clampScale overlays)"
    and off: "\<not> showTooltip (options (state (handler event this)))"
  shows "tooltips (effects (handler event this)) = tooltips (effects this)"
proof -
  consider "handler = LookerElement_keydown overlays"
    | "handler = LookerElement_mouseenter overlays"
    | "handler = LookerElement_mouseleave overlays"
    | "handler = LookerElement_mousedown overlays"
    | "handler = LookerElement_mouseup overlays"
    | "handler = LookerElement_mousemove overlays"
    | "handler = LookerElement_dblclick overlays"
    | "handler = LookerElement_wheel clampScale overlays"
    using assms(1) by (auto simp add: LookerElement_getEvents_def)
  then show ?thesis
  proof cases
    case 1
    with off show ?thesis
      unfolding 1 LookerElement_keydown_def
      by (auto simp add: update_quiet effect_defs split: if_splits)
  next
    case 2
    with off show ?thesis
      unfolding 2 LookerElement_mouseenter_def
      by (simp add: update_quiet effect_defs)
  next
    case 3
    with off show ?thesis
      unfolding 3 LookerElement_mouseleave_def
      by (simp add: update_quiet effect_defs)
  next
    case 4
    with off show ?thesis
      unfolding 4 LookerElement_mousedown_def
      by (simp add: update_quiet effect_defs split: prod.splits)
  next
    case 5
    with off show ?thesis
      unfolding 5 LookerElement_mouseup_def
      by (simp add: update_quiet effect_defs)
  next
    case 6
    with off show ?thesis
      unfolding 6 LookerElement_mousemove_def
      by (simp add: update_quiet effect_defs Let_def split: option.splits)
  next
    case 7
    with off show ?thesis
      unfolding 7 LookerElement_dblclick_def
      by (simp add: update_quiet effect_defs)
  next
    case 8
    with off show ?thesis
      unfolding 8 LookerElement_wheel_def
      by (simp add: update_quiet effect_defs Let_def split: option.splits prod.splits)
  qed
qed

lemma CanvasElement_quiet:
  assumes "(name, handler) \<in> set (CanvasElement_getEvents overlays)"
    and off: "\<not> showTooltip (options (state (handler event this)))"
  shows "tooltips (effects (handler event this))
         = tooltips (effects this) @ (if name = ''mouseleave'' then [Null] else [])"
proof -
  consider "name = ''click''" "handler = CanvasElement_click overlays"
    | "name = ''mouseleave''" "handler = CanvasElement_mouseleave"
    | "name = ''mousemove''" "handler = CanvasElement_mousemove overlays"
    using assms(1) by (auto simp add: CanvasElement_getEvents_def)
  then show ?thesis
  proof cases
    case 1
    then show ?thesis
      by (simp add: CanvasElement_click_def update_def Let_def effect_defs
            split: list.splits)
  next
    case 2
    then show ?thesis
      by (simp add: CanvasElement_mouseleave_def effect_defs)
  next
    case 3
    with off show ?thesis
      unfolding 3 CanvasElement_mousemove_def
      by (simp add: update_quiet effect_defs)
  qed
qed

lemma ControlsElement_quiet:
  assumes "(name, handler) \<in> set (ControlsElement_getEvents overlays)"
  shows "tooltips (effects (handler event this)) = tooltips (effects this)"
proof -
  consider "handler = ControlsElement_click overlays"
    | b where "handler = hoverControls b overlays"
    | "handler = swallow"
    using assms(1) by (auto simp add: ControlsElement_getEvents_def)
  then show ?thesis
    by cases
       (simp_all add: ControlsElement_click_def hoverControls_def update_def Let_def
          effect_defs)
qed

lemma OptionsPanelElement_quiet:
  assumes "(name, handler) \<in> set (OptionsPanelElement_getEvents overlays)"
  shows "tooltips (effects (handler event this)) = tooltips (effects this)"
proof -
  consider "handler = (\<lambda>event. stopAndPrevent)"
    | b where "handler = hoverControls b overlays"
    using assms(1) by (auto simp add: OptionsPanelElement_getEvents_def)
  then show ?thesis
    by cases (simp_all add: hoverControls_def update_def Let_def effect_defs)
qed

lemma Dom_quiet:
  assumes "(name, handler) \<in> set (getEvents clampScale overlays element)"
    and off: "\<not> showTooltip (options (state (handler event this)))"
  shows "tooltips (effects (handler event this))
         = tooltips (effects this)
           @ (if isCanvasMouseleave (Dom element name event) then [Null] else [])"
proof (cases element)
  case LookerElement
  with assms show ?thesis by (simp add: LookerElement_quiet)
next
  case CanvasElement
  with assms show ?thesis by (simp add: CanvasElement_quiet)
next
  case ControlsElement
  with assms show ?thesis by (simp add: ControlsElement_quiet)
next
  case FullscreenButtonElement
  with assms show ?thesis
    by (simp add: FullscreenButtonElement_click_def update_def Let_def effect_defs)
next
  case PlusElement
  with assms show ?thesis by (simp add: PlusElement_click_def effect_defs)
next
  case MinusElement
  with assms show ?thesis by (simp add: MinusElement_click_def effect_defs)
next
  case OptionsButtonElement
  with assms show ?thesis
    by (simp add: OptionsButtonElement_click_def update_def Let_def effect_defs)
next
  case OptionsPanelElement
  with assms show ?thesis by (simp add: OptionsPanelElement_quiet)
next
  case OnlyShowHoveredOnLabelOptionElement
  with assms show ?thesis
    by (simp add: OnlyShowHoveredOnLabelOptionElement_click_def update_def Let_def effect_defs)
next
  case ShowLabelOptionElement
  with assms show ?thesis
    by (simp add: ShowLabelOptionElement_click_def update_def Let_def effect_defs)
next
  case ShowConfidenceOptionElement
  with assms show ?thesis
    by (simp add: ShowConfidenceOptionElement_click_def update_def Let_def effect_defs)
next
  case ShowTooltipOptionElement
  with assms show ?thesis
    by (simp add: ShowTooltipOptionElement_click_def update_def Let_def effect_defs)
qed

lemma isCanvasMouseleave_handled:
  assumes "isCanvasMouseleave (Dom element name event)"
  shows "map_of (getEvents clampScale overlays element) name = Some CanvasElement_mouseleave"
  using assms
  by (cases element) (simp_all add: CanvasElement_getEvents_def)

lemma handle_quiet:
  assumes off: "\<not> showTooltip (options (state (handle clampScale overlays i this)))"
  shows "tooltips (effects (handle clampScale overlays i this))
         = tooltips (effects this) @ (if isCanvasMouseleave i then [Null] else [])"
proof (cases i)
  case (Dom element name event)
  show ?thesis
  proof (cases "map_of (getEvents clampScale overlays element) name")
    case None
    with isCanvasMouseleave_handled [of element name event clampScale overlays]
    show ?thesis by (auto simp add: Dom)
  next
    case (Some handler)
    then have "(name, handler) \<in> set (getEvents clampScale overlays element)"
      by (rule map_of_SomeD)
    with off Some show ?thesis
      by (simp add: Dom Dom_quiet del: isCanvasMouseleave.simps)
  qed
next
  case HideControlsTimeoutFired
  then show ?thesis
    by (simp add: hideControlsTimeout_fired_def update_def Let_def)
next
  case WheelTimeoutFired
  then show ?thesis
    by (simp add: wheelTimeout_fired_def update_def Let_def effect_defs)
qed

text \<open>
  Claim C5, as stated: while \<open>showTooltip\<close> is false no handler dispatches a \<open>tooltip\<close>
  event, mouse leave included. The \<open>mouseleave\<close> handler of \<open>CanvasElement\<close> does: it
  dispatches \<open>tooltip\<close> with payload \<open>null\<close> without looking at the state.
\<close>

theorem tooltip_mouseleave_counterexample:
  "\<not> showTooltip (options (state (exampleLooker
        \<lparr>state := exampleState\<lparr>options := exampleOptions\<lparr>showTooltip := False\<rparr>\<rparr>\<rparr>))) \<and>
   handle clampTo10 (\<lambda>s. [exampleOverlay]) (Dom CanvasElement ''mouseleave'' exampleEvent)
     (exampleLooker\<lparr>state := exampleState\<lparr>options := exampleOptions\<lparr>showTooltip := False\<rparr>\<rparr>\<rparr>)
   = exampleLooker
       \<lparr>state := exampleState\<lparr>options := exampleOptions\<lparr>showTooltip := False\<rparr>\<rparr>,
        effects := [DispatchEvent ''tooltip'' Null]\<rparr>"
  by (simp add: CanvasElement_getEvents_def CanvasElement_mouseleave_def dispatchEvent_def
        perform_def exampleLooker_def)

text \<open>
  Claim C5, amended. Along any sequence of inputs (DOM events on any element of the file,
  timer firings) in which every committed state has \<open>showTooltip\<close> false, the \<open>tooltip\<close>
  events dispatched are exactly one per mouse leave of the canvas, each with payload
  \<open>null\<close>: the tooltip resolver dispatches nothing, for any cursor position and overlay
  list, and no other handler dispatches a \<open>tooltip\<close> event.
\<close>

theorem tooltip_suppression:
  assumes "tooltipOff clampScale overlays inputs this"
  shows "tooltips (effects (handleAll clampScale overlays inputs this))
         = tooltips (effects this) @ replicate (length (filter isCanvasMouseleave inputs)) Null"
  using assms
proof (induction inputs arbitrary: this)
  case Nil
  then show ?case by simp
next
  case (Cons i inputs)
  then have off: "\<not> showTooltip (options (state (handle clampScale overlays i this)))"
    and rest: "tooltipOff clampScale overlays inputs (handle clampScale overlays i this)"
    by simp_all
  from Cons.IH [OF rest] handle_quiet [OF off] show ?case
    by (simp add: replicate_append_same)
qed

theorem tooltip_suppression_witness:
  "tooltipOff clampTo10 (\<lambda>s. [exampleOverlay])
     [Dom CanvasElement ''mousemove'' (exampleEvent\<lparr>pageX := 10, pageY := 20\<rparr>),
      Dom CanvasElement ''mouseleave'' exampleEvent]
     (exampleLooker\<lparr>state := exampleState\<lparr>options := exampleOptions\<lparr>showTooltip := False\<rparr>\<rparr>\<rparr>) \<and>
   tooltips (effects (handleAll clampTo10 (\<lambda>s. [exampleOverlay])
     [Dom CanvasElement ''mousemove'' (exampleEvent\<lparr>pageX := 10, pageY := 20\<rparr>),
      Dom CanvasElement ''mouseleave'' exampleEvent]
     (exampleLooker\<lparr>state := exampleState\<lparr>options := exampleOptions\<lparr>showTooltip := False\<rparr>\<rparr>\<rparr>)))
   = [Null]"
proof -
  let ?inputs = "[Dom CanvasElement ''mousemove'' (exampleEvent\<lparr>pageX := 10, pageY := 20\<rparr>),
      Dom CanvasElement ''mouseleave'' exampleEvent]"
  let ?w = "exampleLooker\<lparr>state := exampleState\<lparr>options := exampleOptions\<lparr>showTooltip := False\<rparr>\<rparr>\<rparr>"
  have off: "tooltipOff clampTo10 (\<lambda>s. [exampleOverlay]) ?inputs ?w"
    by (simp add: CanvasElement_getEvents_def CanvasElement_mousemove_def
          CanvasElement_mouseleave_def update_def Let_def dispatchTooltipEvent_def
          effect_defs perform_def example_defs)
  have e: "tooltips (effects ?w) = []" by (simp add: exampleLooker_def)
  have c: "length (filter isCanvasMouseleave ?inputs) = 1" by simp
  from tooltip_suppression [OF off] off e c show ?thesis
    by (simp del: handleAll.simps tooltipOff.simps)
qed

end
